theory Spec2Isabelle
  imports Complex_Main
begin

section \<open>Python strings\<close>

text \<open>
  A Python \<open>str\<close> is modelled as a \<open>string\<close>; every element stands for one character,
  so \<open>length\<close> is Python's \<open>len\<close>. The characters that \<open>str.strip()\<close> removes are the
  ones for which \<open>str.isspace()\<close> holds.
\<close>

definition py_isspace :: "char \<Rightarrow> bool" where
  "py_isspace c = (of_char c \<in> {9, 10, 11, 12, 13, 28, 29, 30, 31, 32, 133, 160 :: nat})"

definition py_strip :: "string \<Rightarrow> string" where
  "py_strip s = rev (dropWhile py_isspace (rev (dropWhile py_isspace s)))"

definition newline :: char where
  "newline = CHR 0x0A"

definition rstrip_newlines :: "string \<Rightarrow> string" where
  "rstrip_newlines s = rev (dropWhile (\<lambda>c. c = newline) (rev s))"

fun startswith :: "string \<Rightarrow> string \<Rightarrow> bool" where
  "startswith s [] = True"
| "startswith [] (p # ps) = False"
| "startswith (c # cs) (p # ps) = (c = p \<and> startswith cs ps)"

definition digit_char :: "nat \<Rightarrow> char" where
  "digit_char d = ''0123456789'' ! (d mod 10)"

fun str_of_nat :: "nat \<Rightarrow> string" where
  "str_of_nat n =
     (if n < 10 then [digit_char n] else str_of_nat (n div 10) @ [digit_char (n mod 10)])"

declare str_of_nat.simps [simp del]

text \<open>
  The format \<open>{speed:.2f}\<close>: the value rounded to hundredths, ties to the even neighbour.
\<close>

definition round_half_even :: "real \<Rightarrow> int" where
  "round_half_even x =
     (let n = \<lfloor>x\<rfloor>; r = x - of_int n
      in if r < 1 / 2 then n else if 1 / 2 < r then n + 1 else if even n then n else n + 1)"

definition format_2f :: "real \<Rightarrow> string" where
  "format_2f x =
     (let h = nat (round_half_even (100 * \<bar>x\<bar>))
      in (if x < 0 then ''-'' else '''') @ str_of_nat (h div 100) @ ''.'' @
         [digit_char ((h mod 100) div 10), digit_char (h mod 10)])"

text \<open>Python's truth value of an \<open>Optional[str]\<close>: \<open>None\<close> and the empty string are false.\<close>

definition falsy :: "string option \<Rightarrow> bool" where
  "falsy v = (case v of None \<Rightarrow> True | Some t \<Rightarrow> t = [])"

section \<open>Paths\<close>

text \<open>
  \<open>pathlib.Path\<close> in its POSIX flavour: a root (\<open>''''\<close>, \<open>''/''\<close> or \<open>''//''\<close>) and the
  components between the slashes, empty components and \<open>.\<close> dropped.
\<close>

record path =
  path_root :: string
  path_parts :: "string list"

fun split_sep :: "char \<Rightarrow> string \<Rightarrow> string list" where
  "split_sep c [] = [[]]"
| "split_sep c (x # xs) =
     (if x = c then [] # split_sep c xs
      else (case split_sep c xs of [] \<Rightarrow> [[x]] | w # ws \<Rightarrow> (x # w) # ws))"

fun join_sep :: "string \<Rightarrow> string list \<Rightarrow> string" where
  "join_sep sep [] = []"
| "join_sep sep [w] = w"
| "join_sep sep (w # v # ws) = w @ sep @ join_sep sep (v # ws)"

definition Path :: "string \<Rightarrow> path" where
  "Path s =
     \<lparr>path_root =
        (if startswith s ''//'' \<and> \<not> startswith s ''///'' then ''//''
         else if startswith s ''/'' then ''/'' else ''''),
      path_parts = filter (\<lambda>p. p \<noteq> '''' \<and> p \<noteq> ''.'') (split_sep CHR ''/'' s)\<rparr>"

definition is_absolute :: "path \<Rightarrow> bool" where
  "is_absolute p = (path_root p \<noteq> '''')"

definition joinpath :: "path \<Rightarrow> string \<Rightarrow> path" where
  "joinpath p s =
     (let q = Path s
      in if is_absolute q then q
         else \<lparr>path_root = path_root p, path_parts = path_parts p @ path_parts q\<rparr>)"

definition parent :: "path \<Rightarrow> path" where
  "parent p = p\<lparr>path_parts := butlast (path_parts p)\<rparr>"

definition path_name :: "path \<Rightarrow> string" where
  "path_name p = (if path_parts p = [] then '''' else last (path_parts p))"

definition str_path :: "path \<Rightarrow> string" where
  "str_path p =
     (if path_root p = '''' \<and> path_parts p = [] then ''.''
      else path_root p @ join_sep ''/'' (path_parts p))"

section \<open>The environment\<close>

text \<open>
  What a handler reads from outside the program while it runs: the clock, the mixer, the
  file system and the speech service. \<open>sound_load\<close> is the outcome of
  \<open>pygame.mixer.Sound(path)\<close> (\<open>Inl\<close> the message of a \<open>pygame.error\<close>, \<open>Inr\<close> the length
  of the sound in seconds); the three \<open>_error\<close> fields are \<open>None\<close> when the call returns
  and the message of the exception otherwise. Timestamps and durations are real numbers.
\<close>

record env =
  now :: real
  get_busy :: bool
  sound_load :: "string + real"
  sound_play_error :: "string option"
  mkdir_error :: "string option"
  speech_error :: "string option"

text \<open>Calls that leave the program: dialogs, the mixer, the file system, the network.\<close>

datatype effect =
    Showerror string string
  | Showwarning string string
  | Sound_play
  | Mixer_pause
  | Mixer_unpause
  | Mixer_stop
  | Mkdir path
  | Speech_create string string string real
  | Stream_to_file path

section \<open>The speech synthesis client\<close>

text \<open>
  \<open>text_to_speech_gui\<close>, lines 85-124. The arguments \<open>key\<close> and \<open>here\<close> are the module's
  \<open>OPENAI_API_KEY\<close> and \<open>Path(__file__).parent\<close>. The result is the list of outside calls
  made, in order, and the pair the function returns.
\<close>

definition speech_file_path :: "path \<Rightarrow> string \<Rightarrow> path" where
  "speech_file_path here output_filename =
     (if \<not> is_absolute (Path output_filename) then joinpath here output_filename
      else Path output_filename)"

definition text_to_speech_gui ::
  "string option \<Rightarrow> path \<Rightarrow> env \<Rightarrow> string \<Rightarrow> string \<Rightarrow> string \<Rightarrow> string \<Rightarrow> real
     \<Rightarrow> effect list \<times> bool \<times> string" where
  "text_to_speech_gui key here e text_input output_filename model voice speed =
     (if falsy key then ([], False, ''Error: OPENAI_API_KEY is not set.'')
      else
        let p = speech_file_path here output_filename
        in case mkdir_error e of
             Some msg \<Rightarrow> ([Mkdir (parent p)], False, ''Error creating speech file path: '' @ msg)
           | None \<Rightarrow>
               (case speech_error e of
                  Some msg \<Rightarrow>
                    ([Mkdir (parent p), Speech_create model voice text_input speed], False,
                     ''An error occurred while generating speech: '' @ msg)
                | None \<Rightarrow>
                    ([Mkdir (parent p), Speech_create model voice text_input speed,
                      Stream_to_file p], True, str_path p)))"

section \<open>The application\<close>

datatype playback = Stopped | Playing | Paused

datatype widget_state = NORMAL | DISABLED

text \<open>Calls queued on the user interface's thread by \<open>root.after(0, ...)\<close>.\<close>

datatype after_callback = Progress_var_set real | Playback_finished_gui_update

text \<open>
  A running thread: its name (\<open>None\<close> when Python chose the name, \<open>Thread-N ...\<close>) and what
  it runs. A monitor thread is either at the test of its \<open>while\<close> loop (line 371) or at the
  \<open>if\<close> after the loop (line 382).
\<close>

datatype monitor_pc = While_test | If_test

datatype thread =
    Monitor_playback "string option" monitor_pc
  | Perform_tts_conversion string string string string real

fun thread_name :: "thread \<Rightarrow> string option" where
  "thread_name (Monitor_playback n pc) = n"
| "thread_name (Perform_tts_conversion t f m v sp) = None"

text \<open>
  The fields of \<open>TTSApp\<close>, the state of its widgets, and the three things of the process
  the handlers read or write: the module constants, the running threads and the queue of
  \<open>root.after\<close>. \<open>sound_object\<close> holds the length of the loaded sound.
\<close>

record tts_app =
  OPENAI_API_KEY :: "string option"
  file_parent :: path
  current_filepath :: "string option"
  playback_state :: playback
  sound_object :: "real option"
  playback_start_time :: real
  paused_elapsed_time :: real
  model_var :: string
  voice_var :: string
  speed_var :: real
  speed_label_var :: string
  text_input :: string
  char_count_var :: string
  char_count_label_foreground :: string
  output_file_var :: string
  convert_button_text :: string
  convert_button_state :: widget_state
  play_pause_button_text :: string
  play_pause_button_state :: widget_state
  stop_button_state :: widget_state
  progress_value :: real
  progress_maximum :: real
  status_var :: string
  threads :: "thread list"
  after_queue :: "after_callback list"
  effects :: "effect list"

definition text_get :: "tts_app \<Rightarrow> string" where
  "text_get s = text_input s @ [newline]"

definition check_api_key :: "tts_app \<Rightarrow> tts_app" where
  "check_api_key s =
     (if falsy (OPENAI_API_KEY s)
      then s\<lparr>status_var :=
               ''Critical Error: Valid OPENAI_API_KEY is not configured in the .env file.'',
             convert_button_state := DISABLED\<rparr>
      else s)"

definition create_widgets :: "string option \<Rightarrow> path \<Rightarrow> tts_app" where
  "create_widgets key here =
     \<lparr>OPENAI_API_KEY = key,
      file_parent = here,
      current_filepath = None,
      playback_state = Stopped,
      sound_object = None,
      playback_start_time = 0,
      paused_elapsed_time = 0,
      model_var = ''tts-1'',
      voice_var = ''alloy'',
      speed_var = 1,
      speed_label_var = ''1.00x'',
      text_input = '''',
      char_count_var = ''Characters: 0 / 4096'',
      char_count_label_foreground = '''',
      output_file_var = ''speech_output.mp3'',
      convert_button_text = ''Convert to Speech'',
      convert_button_state = NORMAL,
      play_pause_button_text = ''Play'',
      play_pause_button_state = DISABLED,
      stop_button_state = DISABLED,
      progress_value = 0,
      progress_maximum = 100,
      status_var = ''Ready. Inspired by naturalreaders.com/online/'',
      threads = [],
      after_queue = [],
      effects = []\<rparr>"

definition init :: "string option \<Rightarrow> path \<Rightarrow> tts_app" where
  "init key here = check_api_key (create_widgets key here)"

definition update_speed_label :: "real \<Rightarrow> tts_app \<Rightarrow> tts_app" where
  "update_speed_label v s = s\<lparr>speed_label_var := format_2f v @ ''x''\<rparr>"

definition update_char_count :: "tts_app \<Rightarrow> tts_app" where
  "update_char_count s =
     (let char_count = length (rstrip_newlines (text_get s));
          s1 = s\<lparr>char_count_var := ''Characters: '' @ str_of_nat char_count @ '' / 4096''\<rparr>
      in if 4096 < char_count
         then s1\<lparr>char_count_label_foreground := ''red'',
                 status_var := ''Warning: Character count exceeds 4096 limit!''\<rparr>
         else
           let s2 = s1\<lparr>char_count_label_foreground := ''''\<rparr>;
               s3 = (if convert_button_text s2 \<noteq> ''Converting...''
                       \<and> convert_button_state s2 = DISABLED
                       \<and> \<not> startswith (status_var s2) ''Converting''
                     then s2\<lparr>convert_button_state := NORMAL\<rparr> else s2)
           in if startswith (status_var s3) ''Warning: Character count''
              then s3\<lparr>status_var := ''Ready.''\<rparr> else s3)"

definition convert_tts_threaded :: "tts_app \<Rightarrow> tts_app" where
  "convert_tts_threaded s =
     (let text = py_strip (text_get s); char_count = length text
      in if 4096 < char_count
         then s\<lparr>effects := effects s @
                   [Showerror ''Character Limit Exceeded''
                      (''The input text ('' @ str_of_nat char_count @
                       '' characters) exceeds the 4096 character limit for OpenAI TTS.'')],
                 status_var := ''Error: Text too long ('' @ str_of_nat char_count @
                               ''/4096). Conversion cancelled.'',
                 char_count_label_foreground := ''red''\<rparr>
         else if char_count = 0 \<and> text = []
         then s\<lparr>effects := effects s @
                   [Showwarning ''Input Required'' ''Please enter some text to convert.'']\<rparr>
         else
           let s1 = s\<lparr>char_count_label_foreground := ''''\<rparr>;
               output_filename = py_strip (output_file_var s1)
           in if output_filename = []
              then s1\<lparr>effects := effects s1 @
                        [Showwarning ''Output Filename Required''
                           ''Please specify an output filename.'']\<rparr>
              else s1\<lparr>status_var := ''Converting using '' @ model_var s1 @ '', '' @ voice_var s1
                                     @ '', '' @ format_2f (speed_var s1) @ ''x speed...'',
                      convert_button_state := DISABLED,
                      play_pause_button_state := DISABLED,
                      stop_button_state := DISABLED,
                      threads := threads s1 @
                        [Perform_tts_conversion text output_filename (model_var s1)
                           (voice_var s1) (speed_var s1)]\<rparr>)"

definition perform_tts_conversion ::
  "env \<Rightarrow> string \<Rightarrow> string \<Rightarrow> string \<Rightarrow> string \<Rightarrow> real \<Rightarrow> tts_app \<Rightarrow> tts_app" where
  "perform_tts_conversion e text output_filename model voice speed s =
     (case text_to_speech_gui (OPENAI_API_KEY s) (file_parent s) e text output_filename
             model voice speed of
        (calls, success, result) \<Rightarrow>
          let s0 = s\<lparr>effects := effects s @ calls\<rparr>;
              s1 = (if success
                    then s0\<lparr>current_filepath := Some result,
                            status_var := ''Speech saved to: '' @ result,
                            play_pause_button_state := NORMAL,
                            play_pause_button_text := ''Play'',
                            stop_button_state := NORMAL,
                            playback_state := Stopped,
                            progress_value := 0,
                            sound_object := None,
                            char_count_label_foreground := ''''\<rparr>
                    else s0\<lparr>current_filepath := None,
                            status_var := ''Error: '' @ result,
                            effects := effects s0 @ [Showerror ''Conversion Failed'' result]\<rparr>)
          in update_char_count (s1\<lparr>convert_button_state := NORMAL\<rparr>))"

text \<open>The \<open>except pygame.error\<close> branch of the toggle, lines 334-339.\<close>

definition playback_error :: "string \<Rightarrow> tts_app \<Rightarrow> tts_app" where
  "playback_error msg s =
     s\<lparr>effects := effects s @ [Showerror ''Playback Error'' (''Could not play audio: '' @ msg)],
       status_var := ''Error playing audio: '' @ msg,
       playback_state := Stopped,
       play_pause_button_text := ''Play'',
       progress_value := 0\<rparr>"

definition monitor_thread_name :: string where
  "monitor_thread_name = ''_monitor_playback_thread''"

definition toggle_play_pause :: "env \<Rightarrow> tts_app \<Rightarrow> tts_app" where
  "toggle_play_pause e s =
     (if falsy (current_filepath s)
      then s\<lparr>effects := effects s @
                [Showerror ''Error'' ''No audio file to play. Convert text first.'']\<rparr>
      else
        let name = path_name (Path (case current_filepath s of Some f \<Rightarrow> f | None \<Rightarrow> ''''))
        in case playback_state s of
             Stopped \<Rightarrow>
               (case (case sound_object s of Some len \<Rightarrow> Inr len | None \<Rightarrow> sound_load e) of
                  Inl msg \<Rightarrow> playback_error msg s
                | Inr duration_sec \<Rightarrow>
                    let s1 = s\<lparr>sound_object := Some duration_sec,
                               progress_maximum := duration_sec,
                               progress_value := 0,
                               paused_elapsed_time := 0\<rparr>
                    in (case sound_play_error e of
                          Some msg \<Rightarrow> playback_error msg s1
                        | None \<Rightarrow>
                            s1\<lparr>effects := effects s1 @ [Sound_play],
                               playback_start_time := now e,
                               playback_state := Playing,
                               play_pause_button_text := ''Pause'',
                               status_var := ''Playing: '' @ name,
                               threads := threads s1 @ [Monitor_playback None While_test]\<rparr>))
           | Playing \<Rightarrow>
               s\<lparr>effects := effects s @ [Mixer_pause],
                 paused_elapsed_time := now e - playback_start_time s + paused_elapsed_time s,
                 playback_state := Paused,
                 play_pause_button_text := ''Resume'',
                 status_var := ''Paused: '' @ name\<rparr>
           | Paused \<Rightarrow>
               let s1 = s\<lparr>effects := effects s @ [Mixer_unpause],
                          playback_start_time := now e,
                          playback_state := Playing,
                          play_pause_button_text := ''Pause'',
                          status_var := ''Resumed: '' @ name\<rparr>
               in if \<not> list_ex (\<lambda>t. thread_name t = Some monitor_thread_name) (threads s1)
                  then s1\<lparr>threads := threads s1 @
                            [Monitor_playback (Some monitor_thread_name) While_test]\<rparr>
                  else s1)"

definition stop_audio :: "env \<Rightarrow> tts_app \<Rightarrow> tts_app" where
  "stop_audio e s =
     (let s1 = (if sound_object s \<noteq> None \<and> get_busy e
                then s\<lparr>effects := effects s @ [Mixer_stop], sound_object := None\<rparr> else s);
          enabled = (if falsy (current_filepath s1) then DISABLED else NORMAL)
      in s1\<lparr>playback_state := Stopped,
            play_pause_button_text := ''Play'',
            play_pause_button_state := enabled,
            stop_button_state := enabled,
            progress_value := 0,
            paused_elapsed_time := 0,
            status_var :=
              (if falsy (current_filepath s1) then ''Playback stopped.''
               else ''Stopped. Ready to play: '' @
                 path_name (Path (case current_filepath s1 of Some f \<Rightarrow> f | None \<Rightarrow> '''')))\<rparr>)"

section \<open>The progress monitor loop\<close>

text \<open>Line 372: the elapsed time one iteration of the loop computes.\<close>

definition current_elapsed_sec :: "env \<Rightarrow> tts_app \<Rightarrow> real" where
  "current_elapsed_sec e s = (now e - playback_start_time s) + paused_elapsed_time s"

text \<open>Lines 375-378: the value the iteration hands to the progress variable.\<close>

definition pushed_sample :: "env \<Rightarrow> tts_app \<Rightarrow> real" where
  "pushed_sample e s = min (current_elapsed_sec e s) (progress_maximum s)"

text \<open>
  One step of \<open>_monitor_playback\<close>: at the loop test, either one iteration (a sample is
  queued, then the thread waits 50 ms and is back at the test) or the exit to the \<open>if\<close>; at
  the \<open>if\<close>, the natural-finish callback is queued or not, and the thread ends (\<open>None\<close>).
\<close>

fun monitor_playback_step :: "env \<Rightarrow> monitor_pc \<Rightarrow> tts_app \<Rightarrow> monitor_pc option \<times> tts_app" where
  "monitor_playback_step e While_test s =
     (if playback_state s = Playing \<and> get_busy e
      then (Some While_test,
            s\<lparr>after_queue := after_queue s @ [Progress_var_set (pushed_sample e s)]\<rparr>)
      else (Some If_test, s))"
| "monitor_playback_step e If_test s =
     (if playback_state s = Playing \<and> \<not> get_busy e
      then (None, s\<lparr>after_queue := after_queue s @ [Playback_finished_gui_update]\<rparr>)
      else (None, s))"

definition playback_finished_gui_update :: "tts_app \<Rightarrow> tts_app" where
  "playback_finished_gui_update s =
     (if playback_state s = Playing
      then
        let s1 = s\<lparr>playback_state := Stopped,
                   play_pause_button_text := ''Play'',
                   progress_value := progress_maximum s,
                   paused_elapsed_time := 0\<rparr>
        in if falsy (current_filepath s1) then s1
           else s1\<lparr>status_var := ''Finished playing: '' @
                   path_name (Path (case current_filepath s1 of Some f \<Rightarrow> f | None \<Rightarrow> ''''))
                   @ ''. Ready to replay.''\<rparr>
      else s)"

section \<open>Events\<close>

text \<open>
  What happens to a running application, one event at a time: the user edits a field or
  releases a key in the text box, clicks a button (a disabled button ignores the click), a
  thread takes a step, or the user interface runs the next queued callback.
\<close>

datatype event =
    Edit_text string
  | Key_release
  | Set_output_file string
  | Set_speed real
  | Click_convert
  | Click_play_pause
  | Click_stop
  | Thread_step nat
  | Run_after

definition remove_nth :: "nat \<Rightarrow> 'a list \<Rightarrow> 'a list" where
  "remove_nth i xs = take i xs @ drop (Suc i) xs"

definition thread_step :: "env \<Rightarrow> nat \<Rightarrow> tts_app \<Rightarrow> tts_app" where
  "thread_step e i s =
     (if length (threads s) \<le> i then s
      else case threads s ! i of
             Monitor_playback n pc \<Rightarrow>
               (case monitor_playback_step e pc s of
                  (None, s') \<Rightarrow> s'\<lparr>threads := remove_nth i (threads s')\<rparr>
                | (Some pc', s') \<Rightarrow> s'\<lparr>threads := (threads s')[i := Monitor_playback n pc']\<rparr>)
           | Perform_tts_conversion t f m v sp \<Rightarrow>
               perform_tts_conversion e t f m v sp (s\<lparr>threads := remove_nth i (threads s)\<rparr>))"

definition run_after :: "tts_app \<Rightarrow> tts_app" where
  "run_after s =
     (case after_queue s of
        [] \<Rightarrow> s
      | Progress_var_set v # q \<Rightarrow> s\<lparr>after_queue := q, progress_value := v\<rparr>
      | Playback_finished_gui_update # q \<Rightarrow> playback_finished_gui_update (s\<lparr>after_queue := q\<rparr>))"

fun ui_event :: "event \<Rightarrow> env \<Rightarrow> tts_app \<Rightarrow> tts_app" where
  "ui_event (Edit_text t) e s = s\<lparr>text_input := t\<rparr>"
| "ui_event Key_release e s = update_char_count s"
| "ui_event (Set_output_file f) e s = s\<lparr>output_file_var := f\<rparr>"
| "ui_event (Set_speed v) e s = update_speed_label v (s\<lparr>speed_var := v\<rparr>)"
| "ui_event Click_convert e s =
     (if convert_button_state s = NORMAL then convert_tts_threaded s else s)"
| "ui_event Click_play_pause e s =
     (if play_pause_button_state s = NORMAL then toggle_play_pause e s else s)"
| "ui_event Click_stop e s =
     (if stop_button_state s = NORMAL then stop_audio e s else s)"
| "ui_event (Thread_step i) e s = thread_step e i s"
| "ui_event Run_after e s = run_after s"

fun run :: "(event \<times> env) list \<Rightarrow> tts_app \<Rightarrow> tts_app" where
  "run [] s = s"
| "run ((ev, e) # rest) s = run rest (ui_event ev e s)"

text \<open>
  \<open>main_gui\<close>, lines 396-411: without the key the program shows one dialog and ends; no
  application is created.
\<close>

definition main_gui :: "string option \<Rightarrow> path \<Rightarrow> effect list \<times> tts_app option" where
  "main_gui key here =
     (if falsy key
      then ([Showerror ''API Key Error''
               ''OPENAI_API_KEY is not configured correctly in the .env file. Please add it and restart.''],
            None)
      else ([], Some (update_char_count (init key here))))"

text \<open>
  The program from its start: \<open>main_gui\<close> and, when it has built the application, the
  event loop (\<open>root.mainloop()\<close>, line 411) serving what happens afterwards.
\<close>

definition program ::
  "string option \<Rightarrow> path \<Rightarrow> (event \<times> env) list \<Rightarrow> effect list \<times> tts_app option" where
  "program key here tr =
     (case main_gui key here of
        (calls, None) \<Rightarrow> (calls, None)
      | (calls, Some app) \<Rightarrow> (calls, Some (run tr app)))"

section \<open>Elapsed time as the specification defines it\<close>

text \<open>
  The data model's invariant: \<open>elapsed = accumulatedElapsed + (now - startTimestamp)\<close> while
  Playing, \<open>accumulatedElapsed\<close> otherwise.
\<close>

definition spec_elapsed :: "tts_app \<Rightarrow> real \<Rightarrow> real" where
  "spec_elapsed s t =
     (if playback_state s = Playing
      then paused_elapsed_time s + (t - playback_start_time s)
      else paused_elapsed_time s)"

section \<open>Auxiliary notions for the statements\<close>


text \<open>
  A clock that never runs backwards, and sounds of non-negative length: under these the
  elapsed-time fields stay in the range \<open>time_inv\<close> describes.
\<close>

definition sound_ok :: "env \<Rightarrow> bool" where
  "sound_ok e = (case sound_load e of Inl msg \<Rightarrow> True | Inr len \<Rightarrow> 0 \<le> len)"

definition time_inv :: "real \<Rightarrow> tts_app \<Rightarrow> bool" where
  "time_inv t s =
     (0 \<le> paused_elapsed_time s \<and> playback_start_time s \<le> t \<and> 0 \<le> progress_maximum s
      \<and> (case sound_object s of None \<Rightarrow> True | Some len \<Rightarrow> 0 \<le> len))"

fun clock_monotone :: "real \<Rightarrow> (event \<times> env) list \<Rightarrow> bool" where
  "clock_monotone t [] = True"
| "clock_monotone t ((ev, e) # rest) = (t \<le> now e \<and> sound_ok e \<and> clock_monotone (now e) rest)"

fun last_time :: "real \<Rightarrow> (event \<times> env) list \<Rightarrow> real" where
  "last_time t [] = t"
| "last_time t ((ev, e) # rest) = last_time (now e) rest"

section \<open>Example runs\<close>

text \<open>
  The program installed in \<open>/opt/tts\<close>; an environment in which every outside call
  succeeds and the sound is five seconds long, at a given clock reading and mixer state.
\<close>

definition example_dir :: path where
  "example_dir = Path ''/opt/tts''"

definition quiet :: "real \<Rightarrow> bool \<Rightarrow> env" where
  "quiet t b =
     \<lparr>now = t, get_busy = b, sound_load = Inr 5, sound_play_error = None,
      mkdir_error = None, speech_error = None\<rparr>"

text \<open>The user types \<open>Hello world\<close>, converts it, and the conversion succeeds.\<close>

definition converted_app :: tts_app where
  "converted_app =
     run [(Edit_text ''Hello world'', quiet 0 False), (Key_release, quiet 0 False),
          (Click_convert, quiet 0 False), (Thread_step 0, quiet 1 False)]
       (init (Some ''sk-test'') example_dir)"

text \<open>Playback is started at clock reading 10.\<close>

definition playing_app :: tts_app where
  "playing_app = ui_event Click_play_pause (quiet 10 False) converted_app"


text \<open>
  Playback is paused after three seconds and the monitor thread ends; then a second
  conversion is started and succeeds.
\<close>

definition paused_then_converted_app :: tts_app where
  "paused_then_converted_app =
     run [(Click_play_pause, quiet 13 True), (Thread_step 0, quiet 13 True),
          (Thread_step 0, quiet 13 True), (Click_convert, quiet 14 True),
          (Thread_step 0, quiet 15 True)]
       playing_app"

text \<open>
  Pause and resume follow the start so quickly that the monitor thread, which polls every
  50 ms, takes no step in between.
\<close>

definition quick_resume_app :: tts_app where
  "quick_resume_app =
     run [(Click_play_pause, quiet (1001 / 100) True), (Click_play_pause, quiet (1002 / 100) True)]
       playing_app"






section \<open>Evaluation of the example runs\<close>

lemmas model_defs =
  py_strip_def py_isspace_def newline_def rstrip_newlines_def digit_char_def str_of_nat.simps
  round_half_even_def format_2f_def falsy_def
  Path_def is_absolute_def joinpath_def parent_def path_name_def str_path_def
  speech_file_path_def text_to_speech_gui_def
  text_get_def check_api_key_def create_widgets_def init_def update_speed_label_def
  update_char_count_def convert_tts_threaded_def perform_tts_conversion_def playback_error_def
  monitor_thread_name_def toggle_play_pause_def stop_audio_def current_elapsed_sec_def
  pushed_sample_def playback_finished_gui_update_def remove_nth_def thread_step_def
  run_after_def main_gui_def example_dir_def quiet_def Let_def

lemma converted_app_eq:
  "converted_app =
     \<lparr>OPENAI_API_KEY = Some ''sk-test'',
      file_parent = \<lparr>path_root = ''/'', path_parts = [''opt'', ''tts'']\<rparr>,
      current_filepath = Some ''/opt/tts/speech_output.mp3'',
      playback_state = Stopped, sound_object = None, playback_start_time = 0,
      paused_elapsed_time = 0, model_var = ''tts-1'', voice_var = ''alloy'',
      speed_var = 1, speed_label_var = ''1.00x'', text_input = ''Hello world'',
      char_count_var = ''Characters: 11 / 4096'', char_count_label_foreground = [],
      output_file_var = ''speech_output.mp3'', convert_button_text = ''Convert to Speech'',
      convert_button_state = NORMAL, play_pause_button_text = ''Play'',
      play_pause_button_state = NORMAL, stop_button_state = NORMAL,
      progress_value = 0, progress_maximum = 100,
      status_var = ''Speech saved to: /opt/tts/speech_output.mp3'',
      threads = [], after_queue = [],
      effects =
        [Mkdir \<lparr>path_root = ''/'', path_parts = [''opt'', ''tts'']\<rparr>,
         Speech_create ''tts-1'' ''alloy'' ''Hello world'' 1,
         Stream_to_file
           \<lparr>path_root = ''/'', path_parts = [''opt'', ''tts'', ''speech_output.mp3'']\<rparr>]\<rparr>"
  by (simp add: converted_app_def model_defs)

lemma playing_app_eq:
  "playing_app =
     converted_app\<lparr>sound_object := Some 5, progress_maximum := 5, playback_start_time := 10,
       playback_state := Playing, play_pause_button_text := ''Pause'',
       status_var := ''Playing: speech_output.mp3'',
       threads := [Monitor_playback None While_test],
       effects := effects converted_app @ [Sound_play]\<rparr>"
  by (simp add: playing_app_def converted_app_eq model_defs)

lemma playing_app_fields:
  "playback_state playing_app = Playing"
  "playback_start_time playing_app = 10"
  "paused_elapsed_time playing_app = 0"
  "progress_maximum playing_app = 5"
  "after_queue playing_app = []"
  "current_filepath playing_app = Some ''/opt/tts/speech_output.mp3''"
  by (simp_all add: playing_app_eq converted_app_eq)


lemma paused_then_converted_app_fields:
  "playback_state paused_then_converted_app = Stopped"
  "progress_value paused_then_converted_app = 0"
  "paused_elapsed_time paused_then_converted_app = 3"
  "threads paused_then_converted_app = []"
  "current_filepath paused_then_converted_app = Some ''/opt/tts/speech_output.mp3''"
  by (simp_all add: paused_then_converted_app_def playing_app_eq converted_app_eq model_defs)













section \<open>The elapsed-time fields under a clock that never runs backwards\<close>

lemma monitor_playback_step_frame:
  "monitor_playback_step e pc s = (pc', s') \<Longrightarrow> s' = s\<lparr>after_queue := after_queue s'\<rparr>"
  by (cases pc) (auto split: if_splits)

lemma time_inv_after_queue [simp]: "time_inv t (s\<lparr>after_queue := q\<rparr>) = time_inv t s"
  by (simp add: time_inv_def)

lemma time_inv_threads [simp]: "time_inv t (s\<lparr>threads := ths\<rparr>) = time_inv t s"
  by (simp add: time_inv_def)

lemma update_char_count_frame:
  "paused_elapsed_time (update_char_count s) = paused_elapsed_time s"
  "playback_start_time (update_char_count s) = playback_start_time s"
  "progress_maximum (update_char_count s) = progress_maximum s"
  "sound_object (update_char_count s) = sound_object s"
  by (simp_all add: update_char_count_def Let_def)

lemma update_char_count_time_inv [simp]: "time_inv t (update_char_count s) = time_inv t s"
  by (simp add: time_inv_def update_char_count_frame)

lemma perform_tts_conversion_time_inv:
  "time_inv t s \<Longrightarrow> time_inv t (perform_tts_conversion e tx f m v sp s)"
  by (cases "text_to_speech_gui (OPENAI_API_KEY s) (file_parent s) e tx f m v sp")
     (simp add: perform_tts_conversion_def Let_def time_inv_def update_char_count_frame)

lemma time_inv_mono: "time_inv t s \<Longrightarrow> t \<le> t' \<Longrightarrow> time_inv t' s"
  by (simp add: time_inv_def)

lemma thread_step_time_inv: "time_inv t s \<Longrightarrow> time_inv t (thread_step e i s)"
proof (cases "length (threads s) \<le> i")
  case True
  then show "time_inv t s \<Longrightarrow> ?thesis" by (simp add: thread_step_def)
next
  case False
  assume inv: "time_inv t s"
  show ?thesis
  proof (cases "threads s ! i")
    case (Monitor_playback n pc)
    obtain pc' s' where st: "monitor_playback_step e pc s = (pc', s')"
      by (cases "monitor_playback_step e pc s")
    from monitor_playback_step_frame [OF st] inv have "time_inv t s'"
      by (metis time_inv_after_queue)
    then show ?thesis using False Monitor_playback st
      by (cases pc') (simp_all add: thread_step_def)
  next
    case (Perform_tts_conversion tx f m v sp)
    then show ?thesis using False inv
      by (simp add: thread_step_def perform_tts_conversion_time_inv)
  qed
qed

lemma ui_event_time_inv:
  assumes "time_inv t s" and "t \<le> now e" and "sound_ok e"
  shows "time_inv (now e) (ui_event ev e s)"
proof (cases ev)
  case Click_play_pause
  then show ?thesis using assms
    by (auto simp: time_inv_def sound_ok_def toggle_play_pause_def playback_error_def Let_def
        split: playback.splits option.splits sum.splits)
next
  case Click_stop
  then show ?thesis using assms
    by (auto simp: time_inv_def stop_audio_def Let_def split: option.splits)
next
  case (Thread_step i)
  then show ?thesis using assms
    by (simp add: thread_step_time_inv time_inv_mono)
next
  case Run_after
  then show ?thesis using assms
    by (auto simp: time_inv_def run_after_def playback_finished_gui_update_def Let_def
        split: list.splits after_callback.splits option.splits)
qed (use assms in \<open>auto simp: time_inv_def update_char_count_def convert_tts_threaded_def
        update_speed_label_def Let_def split: option.splits\<close>)

lemma run_time_inv:
  "time_inv t s \<Longrightarrow> clock_monotone t tr \<Longrightarrow> time_inv (last_time t tr) (run tr s)"
proof (induction tr arbitrary: t s)
  case Nil
  then show ?case by simp
next
  case (Cons p tr)
  obtain ev e where p: "p = (ev, e)" by (cases p)
  from Cons.prems have "time_inv (now e) (ui_event ev e s)" and "clock_monotone (now e) tr"
    by (simp_all add: p ui_event_time_inv)
  then show ?case using Cons.IH by (simp add: p)
qed

lemma init_time_inv: "0 \<le> t \<Longrightarrow> time_inv t (init key here)"
  by (simp add: time_inv_def init_def check_api_key_def create_widgets_def)

text \<open>
  In every run of the application from its start in which the clock never runs backwards
  and every sound has a non-negative length, a sample taken by the monitor loop lies
  between 0 and the maximum of the progress bar.
\<close>

lemma monotone_clock_sample_bounds:
  assumes "0 \<le> t0" and "clock_monotone t0 tr" and "last_time t0 tr \<le> now e"
  shows "0 \<le> pushed_sample e (run tr (init key here))
    \<and> pushed_sample e (run tr (init key here)) \<le> progress_maximum (run tr (init key here))"
proof -
  have "time_inv (last_time t0 tr) (run tr (init key here))"
    using assms(1,2) by (simp add: run_time_inv init_time_inv)
  then show ?thesis
    using assms(3) by (simp add: time_inv_def pushed_sample_def current_elapsed_sec_def)
qed

section \<open>Stop\<close>


section \<open>Samples of the monitor loop\<close>




section \<open>Pause and resume\<close>

text \<open>
  Claim C2. In the Playing state with an audio file loaded, pause followed by resume keeps
  the elapsed time: pause adds \<open>now - startTimestamp\<close> to the accumulated time, resume sets
  the start timestamp to the clock and leaves the accumulated time alone, so the elapsed
  time right after the resume equals the one right before the pause, both as the
  specification defines it and as the monitor loop computes it.
\<close>

theorem pause_resume_preserves_elapsed:
  assumes "playback_state s = Playing" and "\<not> falsy (current_filepath s)"
  shows "playback_state (toggle_play_pause e1 s) = Paused
    \<and> paused_elapsed_time (toggle_play_pause e1 s) =
        paused_elapsed_time s + (now e1 - playback_start_time s)
    \<and> playback_state (toggle_play_pause e2 (toggle_play_pause e1 s)) = Playing
    \<and> playback_start_time (toggle_play_pause e2 (toggle_play_pause e1 s)) = now e2
    \<and> paused_elapsed_time (toggle_play_pause e2 (toggle_play_pause e1 s)) =
        paused_elapsed_time (toggle_play_pause e1 s)
    \<and> spec_elapsed (toggle_play_pause e2 (toggle_play_pause e1 s)) (now e2) =
        spec_elapsed s (now e1)
    \<and> current_elapsed_sec e2 (toggle_play_pause e2 (toggle_play_pause e1 s)) =
        current_elapsed_sec e1 s"
proof -
  have p: "toggle_play_pause e1 s =
      s\<lparr>effects := effects s @ [Mixer_pause],
        paused_elapsed_time := now e1 - playback_start_time s + paused_elapsed_time s,
        playback_state := Paused,
        play_pause_button_text := ''Resume'',
        status_var := ''Paused: '' @
          path_name (Path (case current_filepath s of Some f \<Rightarrow> f | None \<Rightarrow> ''''))\<rparr>"
    using assms by (simp add: toggle_play_pause_def Let_def)
  have r: "playback_state (toggle_play_pause e2 (toggle_play_pause e1 s)) = Playing
      \<and> playback_start_time (toggle_play_pause e2 (toggle_play_pause e1 s)) = now e2
      \<and> paused_elapsed_time (toggle_play_pause e2 (toggle_play_pause e1 s)) =
          now e1 - playback_start_time s + paused_elapsed_time s"
    using assms(2) unfolding p by (simp add: toggle_play_pause_def Let_def)
  show ?thesis
    using assms(1) r by (simp add: p spec_elapsed_def current_elapsed_sec_def)
qed

text \<open>
  The theorem at work: started at 10, paused at 13 and resumed at 20, the elapsed time is 3
  at the resume.
\<close>

theorem pause_resume_preserves_elapsed_witness:
  "playback_state playing_app = Playing \<and> \<not> falsy (current_filepath playing_app)
   \<and> playback_state (toggle_play_pause (quiet 13 True) playing_app) = Paused
   \<and> paused_elapsed_time (toggle_play_pause (quiet 13 True) playing_app) = 3
   \<and> playback_state
       (toggle_play_pause (quiet 20 True) (toggle_play_pause (quiet 13 True) playing_app)) = Playing
   \<and> spec_elapsed
       (toggle_play_pause (quiet 20 True) (toggle_play_pause (quiet 13 True) playing_app)) 20 = 3"
  using pause_resume_preserves_elapsed [of playing_app "quiet 13 True" "quiet 20 True"]
  by (simp add: playing_app_fields falsy_def spec_elapsed_def quiet_def)

section \<open>Natural finish\<close>



text \<open>
  The whole course of a natural finish, through the thread's two steps and the queue of the
  user interface: the monitor thread is gone and the session is Stopped with a full bar.
\<close>

lemma remove_nth_update: "remove_nth i (xs[i := y]) = remove_nth i xs"
  by (simp add: remove_nth_def)

lemma natural_finish_run:
  assumes "playback_state s = Playing" and "\<not> get_busy e" and "after_queue s = []"
    and "i < length (threads s)" and "threads s ! i = Monitor_playback n While_test"
  shows "playback_state (run [(Thread_step i, e), (Thread_step i, e), (Run_after, e')] s) = Stopped
    \<and> progress_value (run [(Thread_step i, e), (Thread_step i, e), (Run_after, e')] s) =
        progress_maximum s
    \<and> paused_elapsed_time (run [(Thread_step i, e), (Thread_step i, e), (Run_after, e')] s) = 0
    \<and> threads (run [(Thread_step i, e), (Thread_step i, e), (Run_after, e')] s) =
        remove_nth i (threads s)
    \<and> after_queue (run [(Thread_step i, e), (Thread_step i, e), (Run_after, e')] s) = []"
proof -
  have one: "thread_step e i s = s\<lparr>threads := (threads s)[i := Monitor_playback n If_test]\<rparr>"
    using assms by (simp add: thread_step_def)
  have two: "thread_step e i (thread_step e i s) =
      s\<lparr>threads := remove_nth i (threads s), after_queue := [Playback_finished_gui_update]\<rparr>"
    unfolding one using assms by (simp add: thread_step_def remove_nth_update)
  have three: "run [(Thread_step i, e), (Thread_step i, e), (Run_after, e')] s =
      playback_finished_gui_update (s\<lparr>threads := remove_nth i (threads s), after_queue := []\<rparr>)"
    by (simp add: two run_after_def)
  show ?thesis
    unfolding three using assms(1) by (simp add: playback_finished_gui_update_def Let_def)
qed

section \<open>Failure to start\<close>




section \<open>The character limit\<close>




text \<open>
  Every conversion thread the handler starts carries a non-empty text of at most 4096
  characters.
\<close>

lemma convert_starts_only_short_text:
  "threads (convert_tts_threaded s) = threads s
   \<or> (\<exists>t f m v sp. threads (convert_tts_threaded s) = threads s @ [Perform_tts_conversion t f m v sp]
        \<and> length t \<le> 4096 \<and> t \<noteq> [])"
  by (simp add: convert_tts_threaded_def Let_def)

section \<open>The output path\<close>



section \<open>The missing key\<close>

text \<open>
  Claim C7. When the key is absent at the start of the process, the program shows its
  blocking error and ends without building the application: whatever the user does
  afterwards, there is no conversion button to operate, so no synthesis can be attempted
  through the user interface. Moreover the constructor of the application disables the
  button when it finds no key, and the synthesis operation itself returns its error
  before any outside call.
\<close>

theorem no_key_no_synthesis:
  assumes "falsy key"
  shows "program key here tr =
      ([Showerror ''API Key Error''
          ''OPENAI_API_KEY is not configured correctly in the .env file. Please add it and restart.''],
       None)
    \<and> convert_button_state (init key here) = DISABLED
    \<and> text_to_speech_gui key here e txt fn m v sp =
        ([], False, ''Error: OPENAI_API_KEY is not set.'')"
  using assms
  by (simp add: program_def main_gui_def init_def check_api_key_def create_widgets_def
      text_to_speech_gui_def)

text \<open>
  The theorem at work: no key at all, and the user trying to type a text and to convert
  it.
\<close>

theorem no_key_no_synthesis_witness:
  "falsy None
   \<and> program None example_dir
         [(Edit_text ''hi'', quiet 0 False), (Key_release, quiet 0 False),
          (Click_convert, quiet 0 False)] =
       ([Showerror ''API Key Error''
           ''OPENAI_API_KEY is not configured correctly in the .env file. Please add it and restart.''],
        None)
   \<and> convert_button_state (init None example_dir) = DISABLED
   \<and> text_to_speech_gui None example_dir (quiet 0 False) ''hi'' ''speech_output.mp3''
         ''tts-1'' ''alloy'' 1 =
       ([], False, ''Error: OPENAI_API_KEY is not set.'')"
proof -
  have k: "falsy None" by (simp add: falsy_def)
  from no_key_no_synthesis [OF k] show ?thesis using k by blast
qed

section \<open>Competing monitor loops\<close>

text \<open>
  Claim C8 does not hold. The thread started with the playback has a name Python chose, and
  the resume looks for a running thread by the name \<open>_monitor_playback_thread\<close> only. When
  pause and resume follow the start before the first thread has polled again, the resume
  starts a second monitor thread; both are at their loop test in the Playing state, and
  both queue a sample at their next step.
\<close>

theorem quick_resume_two_monitors:
  "playback_state quick_resume_app = Playing
   \<and> threads quick_resume_app =
       [Monitor_playback None While_test,
        Monitor_playback (Some ''_monitor_playback_thread'') While_test]
   \<and> after_queue
       (run [(Thread_step 0, quiet (1005 / 100) True), (Thread_step 1, quiet (1005 / 100) True)]
          quick_resume_app) =
       [Progress_var_set (4 / 100), Progress_var_set (4 / 100)]"
  by (simp add: quick_resume_app_def playing_app_eq converted_app_eq model_defs)

text \<open>
  A resume does leave a single loop when the loop still running is one a resume started.
\<close>

lemma resume_keeps_named_monitor:
  assumes "playback_state s = Paused" and "\<not> falsy (current_filepath s)"
    and "list_ex (\<lambda>t. thread_name t = Some monitor_thread_name) (threads s)"
  shows "threads (toggle_play_pause e s) = threads s"
  using assms by (simp add: toggle_play_pause_def Let_def)

section \<open>Completion of a conversion\<close>

text \<open>
  Claim C9 does not hold. A conversion that succeeds makes the state Stopped and sets the
  progress display to 0, but leaves the accumulated elapsed time as it is: after a pause
  three seconds into the playback and a second conversion, the accumulated time is still 3.
\<close>

theorem conversion_keeps_paused_elapsed:
  "playback_state paused_then_converted_app = Stopped
   \<and> progress_value paused_then_converted_app = 0
   \<and> paused_elapsed_time paused_then_converted_app = 3
   \<and> current_filepath paused_then_converted_app = Some ''/opt/tts/speech_output.mp3''"
  by (simp add: paused_then_converted_app_fields)

text \<open>
  In general a successful conversion resets the state and the progress display and keeps
  the accumulated time.
\<close>

lemma perform_tts_conversion_success:
  assumes "\<not> falsy (OPENAI_API_KEY s)" and "mkdir_error e = None" and "speech_error e = None"
  shows "playback_state (perform_tts_conversion e txt fn m v sp s) = Stopped
    \<and> progress_value (perform_tts_conversion e txt fn m v sp s) = 0
    \<and> paused_elapsed_time (perform_tts_conversion e txt fn m v sp s) = paused_elapsed_time s"
  using assms
  by (simp add: perform_tts_conversion_def text_to_speech_gui_def update_char_count_def Let_def)

end
